theory Spec2Isabelle
  imports Main "HOL-Library.Word" "HOL-Library.Signed_Division"
begin

section \<open>Machine values\<close>

text \<open>
  \<^verbatim>\<open>FeatureBuffer.hh\<close> computes with \<^verbatim>\<open>int\<close> only: frame numbers, vector indices, the
  two dimensions of the window and the size handed to \<^verbatim>\<open>std::vector::resize\<close>. An
  \<^verbatim>\<open>int\<close> is a 32-bit two's-complement value, read through \<open>sint\<close>; \<open><s\<close> and \<open>\<le>s\<close> are
  the signed comparisons. The multiplications of the header are the word multiplication, which
  keeps the low 32 bits of the product: C++ leaves a signed product that does not fit undefined,
  and the low 32 bits are what the multiplication of the compiled code delivers.

  A \<^verbatim>\<open>float\<close> is only stored and loaded, never computed with, so it is modelled by its 32-bit
  pattern; the value-initialised \<^verbatim>\<open>float\<close> (\<^verbatim>\<open>0.0f\<close>) is the pattern \<open>0\<close>.
\<close>

type_synonym cint = "32 word"
type_synonym float = "32 word"

text \<open>
  The ways a call can end other than by returning:
  \<^item> \<open>AssertionFailed\<close>: an \<^verbatim>\<open>assert\<close> of the header failed and the process was aborted
    (the header includes \<^verbatim>\<open>assert.h\<close> and does not define \<^verbatim>\<open>NDEBUG\<close>);
  \<^item> \<open>Thrown msg\<close>: the \<^verbatim>\<open>std::string\<close> \<open>msg\<close> was thrown, which a caller can catch;
  \<^item> \<open>LengthError\<close>: \<^verbatim>\<open>std::vector::resize\<close> threw \<^verbatim>\<open>std::length_error\<close>;
  \<^item> \<open>BadAlloc\<close>: \<^verbatim>\<open>std::vector::resize\<close> threw \<^verbatim>\<open>std::bad_alloc\<close>;
  \<^item> \<open>ArithmeticFault\<close>: \<^verbatim>\<open>%\<close> was applied to a zero divisor, or to \<^verbatim>\<open>INT_MIN\<close> and \<open>-1\<close>;
  \<^item> \<open>NullDereference\<close>: an element of the null pointer was referred to;
  \<^item> \<open>OutsideStorage\<close>: a float was loaded or stored at a position that is not an element of
    the vector.
\<close>

datatype error =
    AssertionFailed
  | Thrown string
  | LengthError
  | BadAlloc
  | ArithmeticFault
  | NullDereference
  | OutsideStorage

text \<open>
  A \<^verbatim>\<open>const float *\<close> is either null or the address of position \<open>p\<close> of the storage of the
  buffer it was taken from, counted in floats from the first element. Taking an address does not
  check it; loading and storing do.
\<close>

datatype float_ptr = Null | Elem int

definition load :: "float list \<Rightarrow> int \<Rightarrow> error + float" where
  "load mem p = (if 0 \<le> p \<and> p < int (length mem) then Inr (mem ! nat p) else Inl OutsideStorage)"

definition store :: "float list \<Rightarrow> int \<Rightarrow> float \<Rightarrow> error + float list" where
  "store mem p v =
     (if 0 \<le> p \<and> p < int (length mem) then Inr (mem[nat p := v]) else Inl OutsideStorage)"

section \<open>FeatureVec\<close>

record FeatureVec =
  m_ptr :: float_ptr
  m_dim :: cint

text \<open>\<^verbatim>\<open>FeatureVec() : m_ptr(NULL), m_dim(0) { }\<close>\<close>

definition FeatureVec_default :: FeatureVec where
  "FeatureVec_default = \<lparr>m_ptr = Null, m_dim = 0\<rparr>"

text \<open>\<^verbatim>\<open>FeatureVec(const float *ptr, int dim) : m_ptr(ptr), m_dim(dim) { }\<close>\<close>

definition FeatureVec_of :: "float_ptr \<Rightarrow> cint \<Rightarrow> FeatureVec" where
  "FeatureVec_of ptr dim = \<lparr>m_ptr = ptr, m_dim = dim\<rparr>"

definition out_of_bounds :: string where
  "out_of_bounds = ''FeatureVec out of bounds''"

text \<open>
  \<^verbatim>\<open>const float &operator[](int index) const\<close>: the bounds check comes first and throws; only
  then is \<^verbatim>\<open>m_ptr[index]\<close> formed. The reference returned is the position of the float.
\<close>

definition FeatureVec_index_const :: "FeatureVec \<Rightarrow> cint \<Rightarrow> error + int" where
  "FeatureVec_index_const vec index =
     (if index <s 0 \<or> m_dim vec \<le>s index then Inl (Thrown out_of_bounds)
      else case m_ptr vec of
             Null \<Rightarrow> Inl NullDereference
           | Elem p \<Rightarrow> Inr (p + sint index))"

text \<open>\<^verbatim>\<open>float &operator[](int index)\<close>: the same check, then the pointer with its const cast away.\<close>

definition FeatureVec_index :: "FeatureVec \<Rightarrow> cint \<Rightarrow> error + int" where
  "FeatureVec_index vec index =
     (if index <s 0 \<or> m_dim vec \<le>s index then Inl (Thrown out_of_bounds)
      else case m_ptr vec of
             Null \<Rightarrow> Inl NullDereference
           | Elem p \<Rightarrow> Inr (p + sint index))"

text \<open>\<^verbatim>\<open>int dim() const { return m_dim; }\<close>\<close>

definition FeatureVec_dim :: "FeatureVec \<Rightarrow> cint" where
  "FeatureVec_dim vec = m_dim vec"

section \<open>FeatureBuffer\<close>

record FeatureBuffer =
  m_dim :: cint
  m_num_frames :: cint
  m_buffer :: "float list"

text \<open>\<^verbatim>\<open>FeatureBuffer() : m_dim(1), m_num_frames(1), m_buffer(1) { }\<close>\<close>

definition FeatureBuffer_default :: FeatureBuffer where
  "FeatureBuffer_default = \<lparr>m_dim = 1, m_num_frames = 1, m_buffer = [0]\<rparr>"

text \<open>
  \<^verbatim>\<open>m_buffer.resize(n)\<close> for an \<^verbatim>\<open>int\<close> \<open>n\<close>. The argument is converted to the unsigned
  \<^verbatim>\<open>size_type\<close>, where a negative \<open>n\<close> becomes a size above \<^verbatim>\<open>max_size()\<close>, for which the vector
  throws \<^verbatim>\<open>std::length_error\<close> and stays as it is; a non-negative \<open>n\<close> is below \<^verbatim>\<open>max_size()\<close>,
  \<^verbatim>\<open>size_type\<close> having 64 bits. A vector that has to grow may ask the
  allocator for memory; \<open>granted\<close> tells whether the allocator provides it, and when it does not
  the vector throws \<^verbatim>\<open>std::bad_alloc\<close> and stays as it is. A vector that does not grow asks for
  nothing. Otherwise the vector keeps its first \<open>n\<close> elements and appends value-initialised ones
  up to the length \<open>n\<close>.
\<close>

definition vector_resize :: "bool \<Rightarrow> float list \<Rightarrow> cint \<Rightarrow> error + float list" where
  "vector_resize granted vec n =
     (if n <s 0 then Inl LengthError
      else if int (length vec) < sint n \<and> \<not> granted then Inl BadAlloc
      else Inr (take (nat (sint n)) vec @ replicate (nat (sint n) - length vec) 0))"

text \<open>
  \<^verbatim>\<open>void resize(int num_frames, int dim)\<close>. The result is the buffer as the call leaves it and
  the error the call ended with, if any: the two fields are assigned before the vector is
  resized. The first argument is the answer of the allocator to the vector, should it ask.
\<close>

definition resize ::
    "bool \<Rightarrow> FeatureBuffer \<Rightarrow> cint \<Rightarrow> cint \<Rightarrow> FeatureBuffer \<times> error option" where
  "resize granted buf num_frames dim =
     (if \<not> 0 <s num_frames then (buf, Some AssertionFailed)
      else if \<not> 0 <s dim then (buf, Some AssertionFailed)
      else
        let buf1 = buf\<lparr>m_num_frames := num_frames\<rparr>;
            buf2 = buf1\<lparr>m_dim := dim\<rparr>
        in case vector_resize granted (m_buffer buf2)
                  (m_num_frames buf2 * FeatureBuffer.m_dim buf2) of
             Inl e \<Rightarrow> (buf2, Some e)
           | Inr vec \<Rightarrow> (buf2\<lparr>m_buffer := vec\<rparr>, None))"

text \<open>\<^verbatim>\<open>int dim() const { return m_dim; }\<close> and \<^verbatim>\<open>int num_frames() const { return m_num_frames; }\<close>\<close>

definition dim :: "FeatureBuffer \<Rightarrow> cint" where
  "dim buf = FeatureBuffer.m_dim buf"

definition num_frames :: "FeatureBuffer \<Rightarrow> cint" where
  "num_frames buf = m_num_frames buf"

text \<open>
  The \<^verbatim>\<open>%\<close> of C++ on \<^verbatim>\<open>int\<close>: the remainder of the division that truncates towards zero
  (\<open>smod\<close> on \<open>int\<close>), which has the sign of the dividend.
\<close>

definition c_rem :: "cint \<Rightarrow> cint \<Rightarrow> error + cint" where
  "c_rem a b =
     (if b = 0 \<or> (sint a = - (2 ^ 31) \<and> sint b = - 1) then Inl ArithmeticFault
      else Inr (word_of_int (sint a smod sint b)))"

text \<open>\<^verbatim>\<open>int modulo(int a, int b) const\<close>\<close>

definition modulo :: "cint \<Rightarrow> cint \<Rightarrow> error + cint" where
  "modulo a b =
     (case c_rem a b of
        Inl e \<Rightarrow> Inl e
      | Inr result \<Rightarrow> Inr (if result <s 0 then result + b else result))"

text \<open>
  \<^verbatim>\<open>const FeatureVec operator[](int frame) const\<close>: the view starts at
  \<^verbatim>\<open>&m_buffer[index * m_dim]\<close>.
\<close>

definition FeatureBuffer_index_const :: "FeatureBuffer \<Rightarrow> cint \<Rightarrow> error + FeatureVec" where
  "FeatureBuffer_index_const buf frame =
     (case modulo frame (m_num_frames buf) of
        Inl e \<Rightarrow> Inl e
      | Inr index \<Rightarrow>
          Inr (FeatureVec_of (Elem (sint (index * FeatureBuffer.m_dim buf)))
                 (FeatureBuffer.m_dim buf)))"

text \<open>\<^verbatim>\<open>FeatureVec operator[](int frame)\<close>\<close>

definition FeatureBuffer_index :: "FeatureBuffer \<Rightarrow> cint \<Rightarrow> error + FeatureVec" where
  "FeatureBuffer_index buf frame =
     (case modulo frame (m_num_frames buf) of
        Inl e \<Rightarrow> Inl e
      | Inr index \<Rightarrow>
          Inr (FeatureVec_of (Elem (sint (index * FeatureBuffer.m_dim buf)))
                 (FeatureBuffer.m_dim buf)))"

section \<open>The two statements of a caller\<close>

text \<open>
  \<^verbatim>\<open>buffer[frame][index] = v\<close> on a buffer: the mutable \<^verbatim>\<open>operator[]\<close> of the buffer, the
  mutable \<^verbatim>\<open>operator[]\<close> of the view it returns, and the store through the reference.
\<close>

definition write_at :: "FeatureBuffer \<Rightarrow> cint \<Rightarrow> cint \<Rightarrow> float \<Rightarrow> error + FeatureBuffer" where
  "write_at buf frame index v =
     (case FeatureBuffer_index buf frame of
        Inl e \<Rightarrow> Inl e
      | Inr vec \<Rightarrow>
          (case FeatureVec_index vec index of
             Inl e \<Rightarrow> Inl e
           | Inr p \<Rightarrow>
               (case store (m_buffer buf) p v of
                  Inl e \<Rightarrow> Inl e
                | Inr mem \<Rightarrow> Inr (buf\<lparr>m_buffer := mem\<rparr>))))"

text \<open>
  The value of \<^verbatim>\<open>buffer[frame][index]\<close> on a const buffer: the const \<^verbatim>\<open>operator[]\<close> of the
  buffer, the const \<^verbatim>\<open>operator[]\<close> of the view, and the load through the reference.
\<close>

definition read_at :: "FeatureBuffer \<Rightarrow> cint \<Rightarrow> cint \<Rightarrow> error + float" where
  "read_at buf frame index =
     (case FeatureBuffer_index_const buf frame of
        Inl e \<Rightarrow> Inl e
      | Inr vec \<Rightarrow>
          (case FeatureVec_index_const vec index of
             Inl e \<Rightarrow> Inl e
           | Inr p \<Rightarrow> load (m_buffer buf) p))"

section \<open>Predicates of the specification\<close>

text \<open>The storage holds \<open>dim * num_frames\<close> values, the product taken over the integers.\<close>

definition storage_invariant :: "FeatureBuffer \<Rightarrow> bool" where
  "storage_invariant buf \<longleftrightarrow>
     int (length (m_buffer buf)) = sint (dim buf) * sint (num_frames buf)"

text \<open>
  A buffer of positive shape whose storage holds \<open>dim * num_frames\<close> values, a count that an
  \<^verbatim>\<open>int\<close> can hold.
\<close>

definition well_formed :: "FeatureBuffer \<Rightarrow> bool" where
  "well_formed buf \<longleftrightarrow>
     0 <s num_frames buf \<and> 0 <s dim buf
     \<and> sint (num_frames buf) * sint (dim buf) < 2 ^ 31
     \<and> storage_invariant buf"

text \<open>The view covers \<open>m_dim\<close> consecutive elements of the storage of the buffer.\<close>

definition valid_slot :: "FeatureBuffer \<Rightarrow> FeatureVec \<Rightarrow> bool" where
  "valid_slot buf vec =
     (case m_ptr vec of
        Null \<Rightarrow> False
      | Elem p \<Rightarrow> 0 \<le> p \<and> p + sint (FeatureVec.m_dim vec) \<le> int (length (m_buffer buf)))"


text \<open>
  The position of element \<open>index\<close> of frame \<open>frame\<close> in the storage: the floored remainder of the
  frame number, times the width of a vector, plus the index.
\<close>

definition slot_offset :: "FeatureBuffer \<Rightarrow> cint \<Rightarrow> cint \<Rightarrow> int" where
  "slot_offset buf frame index = (sint frame mod sint (num_frames buf)) * sint (dim buf) + sint index"

section \<open>Arithmetic of \<^verbatim>\<open>int\<close>\<close>

lemma sint_range32: "- (2 ^ 31) \<le> sint (w :: cint) \<and> sint w < 2 ^ 31"
  using sint_ge [of w] sint_lt [of w] by simp

lemma sint_word_of_int32:
  "- (2 ^ 31) \<le> k \<Longrightarrow> k < 2 ^ 31 \<Longrightarrow> sint (word_of_int k :: cint) = k"
  by (simp add: sint_sbintrunc' signed_take_bit_int_eq_self)

lemma sint_add32:
  "- (2 ^ 31) \<le> sint a + sint b \<Longrightarrow> sint a + sint b < 2 ^ 31 \<Longrightarrow>
     sint (a + b :: cint) = sint a + sint b"
  by (simp add: sint_word_add signed_take_bit_int_eq_self)

lemma sint_mult32:
  "- (2 ^ 31) \<le> sint a * sint b \<Longrightarrow> sint a * sint b < 2 ^ 31 \<Longrightarrow>
     sint (a * b :: cint) = sint a * sint b"
  by (simp add: sint_word_mult signed_take_bit_int_eq_self)

lemma smod_of_mod:
  fixes a b :: int
  assumes "0 < b"
  shows "a smod b = (if 0 \<le> a \<or> a mod b = 0 then a mod b else a mod b - b)"
proof (cases "0 \<le> a")
  case True
  with assms show ?thesis by (simp add: smod_mod_positive)
next
  case False
  then have "a smod b = - ((- a) mod b)"
    using assms by (simp add: smod_int_alt_def sgn_if)
  with False assms show ?thesis
    by (simp add: zmod_zminus1_eq_if)
qed

lemma floored_of_truncated:
  fixes a b :: int
  assumes "0 < b"
  shows "(if a smod b < 0 then a smod b + b else a smod b) = a mod b"
proof -
  have m: "0 \<le> a mod b" "a mod b < b" using assms by simp_all
  show ?thesis
  proof (cases "0 \<le> a \<or> a mod b = 0")
    case True
    then have "a smod b = a mod b" using assms by (simp add: smod_of_mod)
    with m show ?thesis by simp
  next
    case False
    then have "a smod b = a mod b - b" using assms by (simp add: smod_of_mod)
    with m show ?thesis by simp
  qed
qed

lemma smod_bounds:
  fixes a b :: int
  assumes "0 < b"
  shows "- b < a smod b" "a smod b < b"
proof -
  have m: "0 \<le> a mod b" "a mod b < b" using assms by simp_all
  have "a smod b = a mod b \<or> (a smod b = a mod b - b \<and> a mod b \<noteq> 0)"
    using assms by (simp add: smod_of_mod)
  with m show "- b < a smod b" "a smod b < b" by linarith+
qed

lemma c_rem_pos:
  assumes "0 <s b"
  shows "\<exists>t. c_rem a b = Inr t \<and> sint t = sint a smod sint b"
proof -
  from assms have b: "0 < sint b" by (simp add: word_sless_alt)
  then have nz: "b \<noteq> 0" by auto
  have "- sint b < sint a smod sint b" "sint a smod sint b < sint b"
    using smod_bounds [OF b] by simp_all
  moreover have "sint b < 2 ^ 31" using sint_range32 [of b] by simp
  ultimately have "sint (word_of_int (sint a smod sint b) :: cint) = sint a smod sint b"
    by (intro sint_word_of_int32) simp_all
  with b nz show ?thesis by (simp add: c_rem_def)
qed

lemma modulo_pos:
  assumes "0 <s b"
  shows "\<exists>r. modulo a b = Inr r \<and> sint r = sint a mod sint b"
proof -
  from assms have b: "0 < sint b" by (simp add: word_sless_alt)
  obtain t where t: "c_rem a b = Inr t" "sint t = sint a smod sint b"
    using c_rem_pos [OF assms] by blast
  have bounds: "- sint b < sint t" "sint t < sint b"
    using smod_bounds [OF b, of "sint a"] t by simp_all
  have bb: "sint b < 2 ^ 31" using sint_range32 [of b] by simp
  show ?thesis
  proof (cases "t <s 0")
    case True
    then have neg: "sint t < 0" by (simp add: word_sless_alt)
    have "sint (t + b) = sint t + sint b"
      using bounds neg bb b by (intro sint_add32) simp_all
    moreover have "sint t + sint b = sint a mod sint b"
      using floored_of_truncated [OF b, of "sint a"] neg t by simp
    ultimately show ?thesis using t True by (simp add: modulo_def)
  next
    case False
    then have "\<not> sint t < 0" by (simp add: word_sless_alt)
    then have "sint t = sint a mod sint b"
      using floored_of_truncated [OF b, of "sint a"] t by simp
    then show ?thesis using t False by (simp add: modulo_def)
  qed
qed

section \<open>Buffers whose storage has the size of their shape\<close>

lemma resize_fields:
  assumes "0 <s n" "0 <s d"
  shows "dim (fst (resize granted buf n d)) = d" "num_frames (fst (resize granted buf n d)) = n"
  using assms by (simp_all add: resize_def dim_def num_frames_def Let_def split: sum.splits)

lemma slot_offset_bound:
  fixes r n d i :: int
  assumes "0 \<le> r" "r < n" "0 \<le> i" "i < d"
  shows "0 \<le> r * d + i" "r * d + i < n * d" "r * d + d \<le> n * d" "0 \<le> r * d"
proof -
  from assms have d: "0 \<le> d" by simp
  have "(r + 1) * d \<le> n * d" using assms d by (intro mult_right_mono) simp_all
  then show le: "r * d + d \<le> n * d" by (simp add: algebra_simps)
  show nn: "0 \<le> r * d" using assms d by simp
  from nn assms show "0 \<le> r * d + i" by simp
  from le assms show "r * d + i < n * d" by simp
qed

lemma well_formed_default: "well_formed FeatureBuffer_default"
  by (simp add: well_formed_def storage_invariant_def FeatureBuffer_default_def dim_def
      num_frames_def word_sless_alt)

lemma resize_cases:
  assumes "0 <s n" "0 <s d" "sint n * sint d < 2 ^ 31"
  shows "resize granted buf n d =
           (if int (length (m_buffer buf)) < sint n * sint d \<and> \<not> granted
            then (buf\<lparr>m_num_frames := n, m_dim := d\<rparr>, Some BadAlloc)
            else (\<lparr>m_dim = d, m_num_frames = n,
                   m_buffer = take (nat (sint n * sint d)) (m_buffer buf)
                              @ replicate (nat (sint n * sint d) - length (m_buffer buf)) 0\<rparr>, None))"
proof -
  from assms have pos: "0 < sint n" "0 < sint d" by (simp_all add: word_sless_alt)
  then have "0 \<le> sint n * sint d" by simp
  with assms(3) have prod: "sint (n * d) = sint n * sint d"
    by (intro sint_mult32) simp_all
  with \<open>0 \<le> sint n * sint d\<close> have "\<not> n * d <s 0" by (simp add: word_sless_alt)
  with assms prod show ?thesis
    by (simp add: resize_def vector_resize_def Let_def)
qed

lemma resize_fits:
  assumes "0 <s n" "0 <s d" "sint n * sint d < 2 ^ 31"
    and "snd (resize granted buf n d) = None"
  shows "resize granted buf n d =
           (\<lparr>m_dim = d, m_num_frames = n,
             m_buffer = take (nat (sint n * sint d)) (m_buffer buf)
                        @ replicate (nat (sint n * sint d) - length (m_buffer buf)) 0\<rparr>, None)"
  using assms(4) unfolding resize_cases [OF assms(1-3)] by (simp split: if_splits)

lemma resize_returns:
  assumes "0 <s n" "0 <s d" "sint n * sint d < 2 ^ 31"
    and "granted \<or> sint n * sint d \<le> int (length (m_buffer buf))"
  shows "snd (resize granted buf n d) = None"
  using assms(4) unfolding resize_cases [OF assms(1-3)] by auto

lemma resize_well_formed:
  assumes "0 <s n" "0 <s d" "sint n * sint d < 2 ^ 31"
    and "snd (resize granted buf n d) = None"
  shows "well_formed (fst (resize granted buf n d))"
proof -
  from assms have pos: "0 < sint n" "0 < sint d" by (simp_all add: word_sless_alt)
  then have nn: "0 \<le> sint n * sint d" by simp
  show ?thesis
    using assms(1-3) nn
    by (auto simp add: resize_fits [OF assms] well_formed_def storage_invariant_def dim_def
        num_frames_def mult.commute)
qed

lemma index_well_formed:
  assumes "well_formed buf"
  shows "FeatureBuffer_index buf frame =
           Inr (FeatureVec_of (Elem ((sint frame mod sint (num_frames buf)) * sint (dim buf))) (dim buf))"
    and "FeatureBuffer_index_const buf frame =
           Inr (FeatureVec_of (Elem ((sint frame mod sint (num_frames buf)) * sint (dim buf))) (dim buf))"
proof -
  from assms have n: "0 <s m_num_frames buf" and pn: "0 < sint (m_num_frames buf)"
    and pd: "0 < sint (FeatureBuffer.m_dim buf)"
    and fit: "sint (m_num_frames buf) * sint (FeatureBuffer.m_dim buf) < 2 ^ 31"
    by (simp_all add: well_formed_def num_frames_def dim_def word_sless_alt)
  obtain r where r: "modulo frame (m_num_frames buf) = Inr r"
      "sint r = sint frame mod sint (m_num_frames buf)"
    using modulo_pos [OF n] by blast
  have rb: "0 \<le> sint r" "sint r < sint (m_num_frames buf)" using r pn by simp_all
  have "0 \<le> sint r * sint (FeatureBuffer.m_dim buf)"
    "sint r * sint (FeatureBuffer.m_dim buf) + 0 < sint (m_num_frames buf) * sint (FeatureBuffer.m_dim buf)"
    using slot_offset_bound [OF rb _ pd] by simp_all
  with fit have "sint (r * FeatureBuffer.m_dim buf) = sint r * sint (FeatureBuffer.m_dim buf)"
    by (intro sint_mult32) simp_all
  with r show "FeatureBuffer_index buf frame =
           Inr (FeatureVec_of (Elem ((sint frame mod sint (num_frames buf)) * sint (dim buf))) (dim buf))"
    and "FeatureBuffer_index_const buf frame =
           Inr (FeatureVec_of (Elem ((sint frame mod sint (num_frames buf)) * sint (dim buf))) (dim buf))"
    by (simp_all add: FeatureBuffer_index_def FeatureBuffer_index_const_def num_frames_def dim_def)
qed

lemma slot_offset_in_storage:
  assumes "well_formed buf" "0 \<le>s index" "index <s dim buf"
  shows "0 \<le> slot_offset buf frame index" "slot_offset buf frame index < int (length (m_buffer buf))"
proof -
  from assms have pn: "0 < sint (num_frames buf)"
    and len: "int (length (m_buffer buf)) = sint (num_frames buf) * sint (dim buf)"
    and i: "0 \<le> sint index" "sint index < sint (dim buf)"
    by (simp_all add: well_formed_def storage_invariant_def word_sless_alt word_sle_eq mult.commute)
  have rb: "0 \<le> sint frame mod sint (num_frames buf)"
    "sint frame mod sint (num_frames buf) < sint (num_frames buf)" using pn by simp_all
  show "0 \<le> slot_offset buf frame index" "slot_offset buf frame index < int (length (m_buffer buf))"
    using slot_offset_bound [OF rb i] len by (simp_all add: slot_offset_def)
qed

lemma write_at_well_formed:
  assumes "well_formed buf" "0 \<le>s index" "index <s dim buf"
  shows "write_at buf frame index v =
           Inr (buf\<lparr>m_buffer := (m_buffer buf)[nat (slot_offset buf frame index) := v]\<rparr>)"
  using assms slot_offset_in_storage(1) [OF assms, of frame] slot_offset_in_storage(2) [OF assms, of frame]
  by (simp add: write_at_def index_well_formed FeatureVec_index_def FeatureVec_of_def
      store_def slot_offset_def word_sless_alt word_sle_eq dim_def)

lemma read_at_well_formed:
  assumes "well_formed buf" "0 \<le>s index" "index <s dim buf"
  shows "read_at buf frame index = Inr (m_buffer buf ! nat (slot_offset buf frame index))"
  using assms slot_offset_in_storage(1) [OF assms, of frame] slot_offset_in_storage(2) [OF assms, of frame]
  by (simp add: read_at_def index_well_formed FeatureVec_index_const_def FeatureVec_of_def
      load_def slot_offset_def word_sless_alt word_sle_eq dim_def)

lemma update_well_formed:
  assumes "well_formed buf"
  shows "well_formed (buf\<lparr>m_buffer := (m_buffer buf)[k := v]\<rparr>)"
  using assms by (simp add: well_formed_def storage_invariant_def dim_def num_frames_def)




lemma write_at_storage_length:
  assumes "write_at buf frame index v = Inr buf'"
  shows "length (m_buffer buf') = length (m_buffer buf)" "dim buf' = dim buf"
    "num_frames buf' = num_frames buf"
  using assms
  by (auto simp: write_at_def store_def dim_def num_frames_def split: sum.splits if_splits)

section \<open>The wrap of the frame number\<close>

text \<open>
  C2. For every frame number and every positive \<open>num_frames\<close>, \<open>modulo\<close> returns: the result is the
  remainder \<open>frame % num_frames\<close> of the truncating division, with \<open>num_frames\<close> added once when
  that remainder is negative. It lies in \<open>[0, num_frames)\<close> and differs from the frame number by
  a multiple of \<open>num_frames\<close>: it is the floored remainder.
\<close>

theorem modulo_floored:
  assumes "0 <s n"
  shows "\<exists>t r. c_rem frame n = Inr t
           \<and> modulo frame n = Inr r
           \<and> sint t = sint frame smod sint n
           \<and> r = (if t <s 0 then t + n else t)
           \<and> sint r = (if sint t < 0 then sint t + sint n else sint t)
           \<and> 0 \<le> sint r \<and> sint r < sint n
           \<and> sint n dvd (sint frame - sint r)
           \<and> sint r = sint frame mod sint n"
proof -
  from assms have b: "0 < sint n" by (simp add: word_sless_alt)
  obtain t where t: "c_rem frame n = Inr t" "sint t = sint frame smod sint n"
    using c_rem_pos [OF assms] by blast
  obtain r where r: "modulo frame n = Inr r" "sint r = sint frame mod sint n"
    using modulo_pos [OF assms] by blast
  have req: "r = (if t <s 0 then t + n else t)"
    using t r by (simp add: modulo_def)
  have "sint r = (if sint t < 0 then sint t + sint n else sint t)"
    using floored_of_truncated [OF b, of "sint frame"] t r by presburger
  moreover have "0 \<le> sint r" "sint r < sint n" using r b by simp_all
  moreover have "sint n dvd (sint frame - sint r)"
    using r by (simp add: dvd_minus_mod)
  ultimately show ?thesis using t r req by blast
qed

theorem modulo_floored_witness:
  "0 <s (3 :: cint) \<and> c_rem (- 7) 3 = Inr (- 1) \<and> modulo (- 7) (3 :: cint) = Inr 2"
proof -
  have h: "0 <s (3 :: cint)" by (simp add: word_sless_alt)
  have c: "c_rem (- 7) (3 :: cint) = Inr (- 1)" by (simp add: c_rem_def smod_int_alt_def)
  show ?thesis using h c modulo_floored [OF h, of "- 7"]
    by (auto simp: word_sless_alt)
qed

section \<open>Bounds checking of the view\<close>

text \<open>
  The public constructor accepts a null pointer together with a positive dimension. For such a
  view index \<open>0\<close> passes the bounds check, and both \<^verbatim>\<open>operator[]\<close> then refer to an element of
  the null pointer.
\<close>

theorem FeatureVec_null_counterexample:
  "FeatureVec_dim (FeatureVec_of Null 3) = 3
   \<and> 0 \<le>s (0 :: cint) \<and> (0 :: cint) <s FeatureVec_dim (FeatureVec_of Null 3)
   \<and> FeatureVec_index_const (FeatureVec_of Null 3) 0 = Inl NullDereference
   \<and> FeatureVec_index (FeatureVec_of Null 3) 0 = Inl NullDereference"
  by code_simp

text \<open>
  C3, amended. For every view and every index, the const and the mutable \<^verbatim>\<open>operator[]\<close> throw
  the string \<^verbatim>\<open>"FeatureVec out of bounds"\<close>, which a caller can catch, exactly when the index is
  negative or not below the dimension of the view. For an index in \<open>[0, dim)\<close> of a view whose
  pointer is not null, both return the reference to element \<open>index\<close> of the array; when the view
  covers \<open>dim\<close> elements of the storage of a buffer, the load and the store through that
  reference succeed.
\<close>

theorem FeatureVec_bounds:
  "(FeatureVec_index_const vec index = Inl (Thrown ''FeatureVec out of bounds''))
     = (index <s 0 \<or> FeatureVec_dim vec \<le>s index)
   \<and> (FeatureVec_index vec index = Inl (Thrown ''FeatureVec out of bounds''))
     = (index <s 0 \<or> FeatureVec_dim vec \<le>s index)
   \<and> (0 \<le>s index \<and> index <s FeatureVec_dim vec \<and> m_ptr vec = Elem p \<longrightarrow>
        FeatureVec_index_const vec index = Inr (p + sint index)
        \<and> FeatureVec_index vec index = Inr (p + sint index))
   \<and> (0 \<le>s index \<and> index <s FeatureVec_dim vec \<and> valid_slot buf vec \<longrightarrow>
        (\<exists>q. FeatureVec_index_const vec index = Inr q
           \<and> FeatureVec_index vec index = Inr q
           \<and> load (m_buffer buf) q = Inr (m_buffer buf ! nat q)
           \<and> store (m_buffer buf) q v = Inr ((m_buffer buf)[nat q := v])))"
proof -
  have thrown: "(FeatureVec_index_const vec index = Inl (Thrown ''FeatureVec out of bounds''))
       = (index <s 0 \<or> FeatureVec_dim vec \<le>s index)"
    "(FeatureVec_index vec index = Inl (Thrown ''FeatureVec out of bounds''))
       = (index <s 0 \<or> FeatureVec_dim vec \<le>s index)"
    by (simp_all add: FeatureVec_index_const_def FeatureVec_index_def FeatureVec_dim_def
        out_of_bounds_def split: float_ptr.splits)
  have ref: "FeatureVec_index_const vec index = Inr (p + sint index)
      \<and> FeatureVec_index vec index = Inr (p + sint index)"
    if "0 \<le>s index" "index <s FeatureVec_dim vec" "m_ptr vec = Elem p" for p
    using that
    by (simp add: FeatureVec_index_const_def FeatureVec_index_def FeatureVec_dim_def
        word_sless_alt word_sle_eq)
  have "\<exists>q. FeatureVec_index_const vec index = Inr q
           \<and> FeatureVec_index vec index = Inr q
           \<and> load (m_buffer buf) q = Inr (m_buffer buf ! nat q)
           \<and> store (m_buffer buf) q v = Inr ((m_buffer buf)[nat q := v])"
    if i: "0 \<le>s index" "index <s FeatureVec_dim vec" and v: "valid_slot buf vec"
  proof -
    from v obtain p' where p': "m_ptr vec = Elem p'" "0 \<le> p'"
        "p' + sint (FeatureVec.m_dim vec) \<le> int (length (m_buffer buf))"
      by (auto simp: valid_slot_def split: float_ptr.splits)
    from i have "0 \<le> sint index" "sint index < sint (FeatureVec.m_dim vec)"
      by (simp_all add: FeatureVec_dim_def word_sless_alt word_sle_eq)
    with p' have "0 \<le> p' + sint index" "p' + sint index < int (length (m_buffer buf))"
      by simp_all
    then have "load (m_buffer buf) (p' + sint index) = Inr (m_buffer buf ! nat (p' + sint index))"
      "store (m_buffer buf) (p' + sint index) v = Inr ((m_buffer buf)[nat (p' + sint index) := v])"
      by (simp_all add: load_def store_def)
    with ref [OF i p'(1)] show ?thesis by blast
  qed
  with thrown ref show ?thesis by blast
qed

theorem FeatureVec_bounds_witness:
  "FeatureVec_index_const (FeatureVec_of (Elem 4) 2) 2 = Inl (Thrown ''FeatureVec out of bounds'')
   \<and> FeatureVec_index (FeatureVec_of (Elem 4) 2) (- 1) = Inl (Thrown ''FeatureVec out of bounds'')
   \<and> 0 \<le>s (1 :: cint) \<and> 1 <s FeatureVec_dim (FeatureVec_of (Elem 4) 2)
   \<and> m_ptr (FeatureVec_of (Elem 4) 2) = Elem 4
   \<and> valid_slot \<lparr>m_dim = 2, m_num_frames = 3, m_buffer = [1, 2, 3, 4, 5, 6]\<rparr>
         (FeatureVec_of (Elem 4) 2)
   \<and> FeatureVec_index_const (FeatureVec_of (Elem 4) 2) 1 = Inr 5
   \<and> FeatureVec_index (FeatureVec_of (Elem 4) 2) 1 = Inr 5
   \<and> load [1, 2, 3, 4, 5, 6] 5 = Inr 6
   \<and> store [1, 2, 3, 4, 5, 6] 5 9 = Inr [1, 2, 3, 4, 5, 9]"
proof -
  let ?vec = "FeatureVec_of (Elem 4) 2"
  let ?buf = "\<lparr>m_dim = 2, m_num_frames = 3, m_buffer = [1, 2, 3, 4, 5, 6]\<rparr>"
  have d: "FeatureVec_dim ?vec = 2" "m_ptr ?vec = Elem 4"
    by (simp_all add: FeatureVec_dim_def FeatureVec_of_def)
  have h: "(2 :: cint) <s 0 \<or> FeatureVec_dim ?vec \<le>s 2"
    "(- 1 :: cint) <s 0 \<or> FeatureVec_dim ?vec \<le>s - 1"
    "0 \<le>s (1 :: cint)" "1 <s FeatureVec_dim ?vec"
    by (simp_all add: d word_sless_alt word_sle_eq)
  have v: "valid_slot ?buf ?vec" by (simp add: valid_slot_def FeatureVec_of_def)
  have e: "[1, 2, 3, 4, 5, 6 :: float] ! nat 5 = 6"
    "[1, 2, 3, 4, 5, 6 :: float][nat 5 := 9] = [1, 2, 3, 4, 5, 9]"
    by code_simp+
  from h d v FeatureVec_bounds [of ?vec 2 4 ?buf 9] FeatureVec_bounds [of ?vec "- 1" 4 ?buf 9]
    FeatureVec_bounds [of ?vec 1 4 ?buf 9]
  show ?thesis by (auto simp: e)
qed

text \<open>
  C10. The default-constructed view has dimension \<open>0\<close>, and for every index its const and its
  mutable \<^verbatim>\<open>operator[]\<close> throw the bounds error. The check precedes the use of the pointer, so
  the outcome is never the dereference of the null pointer.
\<close>

theorem FeatureVec_default_access:
  "m_ptr FeatureVec_default = Null
   \<and> FeatureVec_dim FeatureVec_default = 0
   \<and> FeatureVec_index_const FeatureVec_default index = Inl (Thrown ''FeatureVec out of bounds'')
   \<and> FeatureVec_index FeatureVec_default index = Inl (Thrown ''FeatureVec out of bounds'')
   \<and> FeatureVec_index_const FeatureVec_default index \<noteq> Inl NullDereference
   \<and> FeatureVec_index FeatureVec_default index \<noteq> Inl NullDereference"
  by (auto simp: FeatureVec_index_const_def FeatureVec_index_def FeatureVec_dim_def
      FeatureVec_default_def out_of_bounds_def word_sless_alt word_sle_eq)

section \<open>Resizing\<close>

text \<open>
  C5. For all positive \<open>n\<close> and \<open>d\<close>, the buffer that \<open>resize n d\<close> leaves has \<open>dim() = d\<close> and
  \<open>num_frames() = n\<close>; after a second resize with positive \<open>n'\<close> and \<open>d'\<close> the two accessors return
  \<open>d'\<close> and \<open>n'\<close>, whatever the first shape was. This holds however the vector call inside
  \<open>resize\<close> ends.
\<close>

theorem resize_accessors:
  assumes "0 <s n" "0 <s d"
  shows "dim (fst (resize g buf n d)) = d \<and> num_frames (fst (resize g buf n d)) = n
    \<and> (0 <s n' \<and> 0 <s d' \<longrightarrow>
         dim (fst (resize g' (fst (resize g buf n d)) n' d')) = d'
         \<and> num_frames (fst (resize g' (fst (resize g buf n d)) n' d')) = n')"
  using assms by (simp add: resize_fields)

theorem resize_accessors_witness:
  "0 <s (3 :: cint) \<and> 0 <s (2 :: cint)
   \<and> dim (fst (resize True FeatureBuffer_default 3 2)) = 2
   \<and> num_frames (fst (resize True FeatureBuffer_default 3 2)) = 3
   \<and> 0 <s (5 :: cint) \<and> 0 <s (4 :: cint)
   \<and> dim (fst (resize False (fst (resize True FeatureBuffer_default 3 2)) 5 4)) = 4
   \<and> num_frames (fst (resize False (fst (resize True FeatureBuffer_default 3 2)) 5 4)) = 5"
proof -
  have h: "0 <s (3 :: cint)" "0 <s (2 :: cint)" and h': "0 <s (5 :: cint)" "0 <s (4 :: cint)"
    by (simp_all add: word_sless_alt)
  from h h' resize_accessors [OF h, of True FeatureBuffer_default 5 4 False] show ?thesis by simp
qed

text \<open>
  C8. \<open>resize\<close> ends in the failed assertion exactly when \<open>num_frames \<le> 0\<close> or \<open>dim \<le> 0\<close>. The call
  then neither returns nor throws, and the buffer has not been touched. With both arguments
  positive the assertions pass.
\<close>

theorem resize_assertion:
  "(snd (resize g buf n d) = Some AssertionFailed) = (n \<le>s 0 \<or> d \<le>s 0)
   \<and> (n \<le>s 0 \<or> d \<le>s 0 \<longrightarrow> resize g buf n d = (buf, Some AssertionFailed))
   \<and> (0 <s n \<and> 0 <s d \<longrightarrow> snd (resize g buf n d) \<noteq> Some AssertionFailed)"
  by (auto simp: resize_def Let_def vector_resize_def word_sless_alt word_sle_eq split: sum.splits)

theorem resize_assertion_witness:
  "((0 :: cint) \<le>s 0 \<or> (5 :: cint) \<le>s 0)
   \<and> resize True FeatureBuffer_default 0 5 = (FeatureBuffer_default, Some AssertionFailed)
   \<and> ((3 :: cint) \<le>s 0 \<or> (- 2 :: cint) \<le>s 0)
   \<and> resize True FeatureBuffer_default 3 (- 2) = (FeatureBuffer_default, Some AssertionFailed)
   \<and> 0 <s (3 :: cint) \<and> 0 <s (2 :: cint)
   \<and> snd (resize True FeatureBuffer_default 3 2) \<noteq> Some AssertionFailed"
proof -
  have h: "(0 :: cint) \<le>s 0 \<or> (5 :: cint) \<le>s 0" "(3 :: cint) \<le>s 0 \<or> (- 2 :: cint) \<le>s 0"
    "0 <s (3 :: cint)" "0 <s (2 :: cint)"
    by (simp_all add: word_sless_alt word_sle_eq)
  from h resize_assertion [of True FeatureBuffer_default 0 5]
    resize_assertion [of True FeatureBuffer_default 3 "- 2"]
    resize_assertion [of True FeatureBuffer_default 3 2]
  show ?thesis by (simp add: word_sless_alt word_sle_eq)
qed

text \<open>
  The size handed to the vector is the \<^verbatim>\<open>int\<close> product \<^verbatim>\<open>m_num_frames * m_dim\<close>. For the positive
  shape \<open>(65536, 65536)\<close> its low 32 bits are \<open>0\<close>: the call returns and leaves an empty storage,
  while \<open>dim * num_frames\<close> is \<open>4294967296\<close>. For \<open>(65536, 32768)\<close> the product is negative as an
  \<^verbatim>\<open>int\<close>: the vector throws and keeps its single element. For \<open>(2147483647, 1)\<close> the vector has
  to grow from one element to \<open>2147483647\<close>; when the allocator refuses, the vector throws and
  keeps its single element, and the two fields have their new values already.
\<close>

theorem storage_invariant_counterexample:
  "0 <s (65536 :: cint) \<and> 0 <s (32768 :: cint) \<and> 0 <s (2147483647 :: cint) \<and> 0 <s (1 :: cint)
   \<and> snd (resize True FeatureBuffer_default 65536 65536) = None
   \<and> length (m_buffer (fst (resize True FeatureBuffer_default 65536 65536))) = 0
   \<and> sint (dim (fst (resize True FeatureBuffer_default 65536 65536)))
       * sint (num_frames (fst (resize True FeatureBuffer_default 65536 65536))) = 4294967296
   \<and> \<not> storage_invariant (fst (resize True FeatureBuffer_default 65536 65536))
   \<and> resize True FeatureBuffer_default 65536 32768
       = (\<lparr>m_dim = 32768, m_num_frames = 65536, m_buffer = [0]\<rparr>, Some LengthError)
   \<and> \<not> storage_invariant (fst (resize True FeatureBuffer_default 65536 32768))
   \<and> resize False FeatureBuffer_default 2147483647 1
       = (\<lparr>m_dim = 1, m_num_frames = 2147483647, m_buffer = [0]\<rparr>, Some BadAlloc)
   \<and> \<not> storage_invariant (fst (resize False FeatureBuffer_default 2147483647 1))"
  by code_simp

text \<open>
  C6, amended. The storage holds \<open>dim * num_frames\<close> values after default construction, after
  every resize that returns and had positive arguments whose product is at most \<open>2^31 - 1\<close>, and
  after every write through a view of a buffer for which it held before. Such a resize returns
  whenever the vector obtains the memory it asks for.
\<close>

theorem storage_invariant_kept:
  "storage_invariant FeatureBuffer_default
   \<and> (0 <s n \<and> 0 <s d \<and> sint n * sint d < 2 ^ 31 \<and> snd (resize g buf0 n d) = None \<longrightarrow>
        storage_invariant (fst (resize g buf0 n d)))
   \<and> (0 <s n \<and> 0 <s d \<and> sint n * sint d < 2 ^ 31 \<longrightarrow> snd (resize True buf0 n d) = None)
   \<and> (storage_invariant buf \<and> write_at buf frame index v = Inr buf' \<longrightarrow> storage_invariant buf')"
proof -
  have "storage_invariant FeatureBuffer_default"
    using well_formed_default by (simp add: well_formed_def)
  moreover have "storage_invariant (fst (resize g buf0 n d))"
    if "0 <s n" "0 <s d" "sint n * sint d < 2 ^ 31" "snd (resize g buf0 n d) = None"
    using resize_well_formed [OF that] by (simp add: well_formed_def)
  moreover have "snd (resize True buf0 n d) = None"
    if "0 <s n" "0 <s d" "sint n * sint d < 2 ^ 31"
    using that by (intro resize_returns) simp_all
  moreover have "storage_invariant buf'"
    if "storage_invariant buf" "write_at buf frame index v = Inr buf'"
    using that write_at_storage_length [OF that(2)] by (simp add: storage_invariant_def)
  ultimately show ?thesis by blast
qed

theorem storage_invariant_kept_witness:
  "0 <s (3 :: cint) \<and> 0 <s (2 :: cint) \<and> sint (3 :: cint) * sint (2 :: cint) < 2 ^ 31
   \<and> snd (resize True FeatureBuffer_default 3 2) = None
   \<and> storage_invariant (fst (resize True FeatureBuffer_default 3 2))
   \<and> storage_invariant \<lparr>m_dim = 2, m_num_frames = 3, m_buffer = [0, 0, 0, 0, 0, 0]\<rparr>
   \<and> write_at \<lparr>m_dim = 2, m_num_frames = 3, m_buffer = [0, 0, 0, 0, 0, 0]\<rparr> 4 1 7
       = Inr \<lparr>m_dim = 2, m_num_frames = 3, m_buffer = [0, 0, 0, 7, 0, 0]\<rparr>
   \<and> storage_invariant \<lparr>m_dim = 2, m_num_frames = 3, m_buffer = [0, 0, 0, 7, 0, 0]\<rparr>"
proof -
  let ?buf = "\<lparr>m_dim = 2, m_num_frames = 3, m_buffer = [0, 0, 0, 0, 0, 0]\<rparr>"
  let ?buf' = "\<lparr>m_dim = 2, m_num_frames = 3, m_buffer = [0, 0, 0, 7, 0, 0]\<rparr>"
  have h: "0 <s (3 :: cint)" "0 <s (2 :: cint)" "sint (3 :: cint) * sint (2 :: cint) < 2 ^ 31"
    by (simp_all add: word_sless_alt)
  have r: "snd (resize True FeatureBuffer_default 3 2) = None" by code_simp
  have i: "storage_invariant ?buf" by code_simp
  have w: "write_at ?buf 4 1 7 = Inr ?buf'" by code_simp
  from h r i w storage_invariant_kept [of 3 2 True FeatureBuffer_default ?buf 4 1 7 ?buf']
  show ?thesis by simp
qed

text \<open>
  A value written into a buffer of shape \<open>(3, 2)\<close> is still read after \<open>resize 3 2\<close>: the vector is
  resized to the length it already has, and the call clears nothing.
\<close>

theorem resize_clears_counterexample:
  "write_at (fst (resize True FeatureBuffer_default 3 2)) 0 0 7
     = Inr \<lparr>m_dim = 2, m_num_frames = 3, m_buffer = [7, 0, 0, 0, 0, 0]\<rparr>
   \<and> resize True \<lparr>m_dim = 2, m_num_frames = 3, m_buffer = [7, 0, 0, 0, 0, 0]\<rparr> 3 2
     = (\<lparr>m_dim = 2, m_num_frames = 3, m_buffer = [7, 0, 0, 0, 0, 0]\<rparr>, None)
   \<and> read_at
         (fst (resize True \<lparr>m_dim = 2, m_num_frames = 3, m_buffer = [7, 0, 0, 0, 0, 0]\<rparr> 3 2)) 0 0
     = Inr 7"
  by code_simp

text \<open>
  C7, amended. For every buffer whose storage holds \<open>num_frames * dim \<le> 2^31 - 1\<close> values, calling
  \<open>resize\<close> with the shape the buffer has, once or repeatedly, is safe but does not clear the
  stored data: every such call resizes the vector, to the length it already has, and returns
  with the buffer as it was, whatever the allocator would answer. The warning of the header
  that \<open>resize\<close> invalidates all data is addressed to callers, who are guaranteed no value after
  any call; it is outside of what is proved here.
\<close>

theorem resize_same_shape:
  assumes "well_formed buf"
  shows "vector_resize g (m_buffer buf) (num_frames buf * dim buf) = Inr (m_buffer buf)
         \<and> resize g buf (num_frames buf) (dim buf) = (buf, None)
         \<and> resize g' (fst (resize g buf (num_frames buf) (dim buf))) (num_frames buf) (dim buf)
             = (buf, None)"
proof -
  from assms have h: "0 <s num_frames buf" "0 <s dim buf"
      "sint (num_frames buf) * sint (dim buf) < 2 ^ 31"
    and len: "int (length (m_buffer buf)) = sint (num_frames buf) * sint (dim buf)"
    by (simp_all add: well_formed_def storage_invariant_def mult.commute)
  from h have "0 \<le> sint (num_frames buf) * sint (dim buf)" by (simp add: word_sless_alt)
  with h(3) have prod: "sint (num_frames buf * dim buf) = sint (num_frames buf) * sint (dim buf)"
    by (intro sint_mult32) simp_all
  from len prod have v: "vector_resize g (m_buffer buf) (num_frames buf * dim buf) = Inr (m_buffer buf)"
    by (simp add: vector_resize_def word_sless_alt)
  from len have n: "nat (sint (num_frames buf) * sint (dim buf)) = length (m_buffer buf)" by simp
  have same: "resize g'' buf (num_frames buf) (dim buf) = (buf, None)" for g''
    using resize_cases [OF h, of g'' buf] len n by (simp add: dim_def num_frames_def)
  from v same [of g] same [of g'] show ?thesis by simp
qed

theorem resize_same_shape_witness:
  "well_formed \<lparr>m_dim = 2, m_num_frames = 3, m_buffer = [7, 0, 0, 0, 0, 0]\<rparr>
   \<and> vector_resize False [7, 0, 0, 0, 0, 0] (3 * 2) = Inr [7, 0, 0, 0, 0, 0]
   \<and> resize False \<lparr>m_dim = 2, m_num_frames = 3, m_buffer = [7, 0, 0, 0, 0, 0]\<rparr> 3 2
       = (\<lparr>m_dim = 2, m_num_frames = 3, m_buffer = [7, 0, 0, 0, 0, 0]\<rparr>, None)"
proof -
  let ?buf = "\<lparr>m_dim = 2, m_num_frames = 3, m_buffer = [7, 0, 0, 0, 0, 0]\<rparr>"
  have wf: "well_formed ?buf" by code_simp
  have shape: "num_frames ?buf = 3" "dim ?buf = 2" by (simp_all add: num_frames_def dim_def)
  from wf resize_same_shape [OF wf, of False False] show ?thesis by (simp add: shape)
qed

section \<open>Access by frame number\<close>

text \<open>
  After \<open>resize 65536 65536\<close> has returned, both fields are \<open>65536\<close> and the storage is empty. The
  frame numbers \<open>1\<close> and \<open>65537\<close> are congruent modulo \<open>65536\<close>, and the store of
  \<^verbatim>\<open>buffer[1][0] = v\<close> goes to position \<open>65536\<close>, which is outside of the storage.
\<close>

theorem write_then_read_overflow_counterexample:
  "0 <s (65536 :: cint)
   \<and> resize True FeatureBuffer_default 65536 65536
       = (\<lparr>m_dim = 65536, m_num_frames = 65536, m_buffer = []\<rparr>, None)
   \<and> sint (1 :: cint) mod sint (65536 :: cint) = sint (65537 :: cint) mod sint (65536 :: cint)
   \<and> 0 \<le>s (0 :: cint) \<and> (0 :: cint) <s 65536
   \<and> FeatureBuffer_index (fst (resize True FeatureBuffer_default 65536 65536)) 1
       = Inr (FeatureVec_of (Elem 65536) 65536)
   \<and> FeatureVec_index (FeatureVec_of (Elem 65536) 65536) 0 = Inr 65536
   \<and> write_at (fst (resize True FeatureBuffer_default 65536 65536)) 1 0 5 = Inl OutsideStorage"
  by code_simp

text \<open>
  C1, amended. For every buffer resized, the call having returned, with \<open>n > 0\<close> and \<open>d > 0\<close> such
  that \<open>n * d \<le> 2^31 - 1\<close>, for all frame numbers \<open>frame\<close> and \<open>frame'\<close> that are congruent modulo
  \<open>n\<close> and every index in \<open>[0, d)\<close>: the write of \<open>v\<close> through \<^verbatim>\<open>buffer[frame][index]\<close> returns, and
  the read of \<^verbatim>\<open>buffer[frame'][index]\<close> that follows returns \<open>v\<close>. The views \<^verbatim>\<open>buffer[-1]\<close> and
  \<^verbatim>\<open>buffer[n - 1]\<close> are the same.
\<close>

theorem write_then_read_wraps:
  assumes "0 <s n" "0 <s d" "sint n * sint d < 2 ^ 31"
    and "snd (resize g buf0 n d) = None"
    and "sint frame mod sint n = sint frame' mod sint n"
    and "0 \<le>s index" "index <s d"
  shows "(\<exists>buf'. write_at (fst (resize g buf0 n d)) frame index v = Inr buf'
            \<and> read_at buf' frame' index = Inr v)
         \<and> FeatureBuffer_index (fst (resize g buf0 n d)) (- 1)
             = FeatureBuffer_index (fst (resize g buf0 n d)) (n - 1)
         \<and> FeatureBuffer_index_const (fst (resize g buf0 n d)) (- 1)
             = FeatureBuffer_index_const (fst (resize g buf0 n d)) (n - 1)"
proof -
  let ?buf = "fst (resize g buf0 n d)"
  have wf: "well_formed ?buf" using assms(1-4) by (rule resize_well_formed)
  have shape: "num_frames ?buf = n" "dim ?buf = d" using assms(1,2) by (simp_all add: resize_fields)
  have idx: "0 \<le>s index" "index <s dim ?buf" using assms shape by simp_all
  let ?k = "nat (slot_offset ?buf frame index)"
  let ?buf' = "?buf\<lparr>m_buffer := (m_buffer ?buf)[?k := v]\<rparr>"
  have w: "write_at ?buf frame index v = Inr ?buf'" using wf idx by (rule write_at_well_formed)
  have wf': "well_formed ?buf'" using wf by (rule update_well_formed)
  have idx': "0 \<le>s index" "index <s dim ?buf'" using idx by (simp_all add: dim_def)
  have same: "slot_offset ?buf' frame' index = slot_offset ?buf frame index"
    using assms(5) shape by (simp add: slot_offset_def dim_def num_frames_def)
  have inside: "?k < length (m_buffer ?buf)"
    using slot_offset_in_storage(1) [OF wf idx, of frame] slot_offset_in_storage(2) [OF wf idx, of frame] by simp
  have "read_at ?buf' frame' index = Inr (m_buffer ?buf' ! nat (slot_offset ?buf' frame' index))"
    using wf' idx' by (rule read_at_well_formed)
  also have "\<dots> = Inr v" using same inside by simp
  finally have r: "read_at ?buf' frame' index = Inr v" .
  from assms(1) have pn: "0 < sint n" by (simp add: word_sless_alt)
  have "sint (n - 1) = sint n - 1"
    using pn sint_range32 [of n] by (simp add: sint_word_diff signed_take_bit_int_eq_self)
  then have last: "sint (n - 1) mod sint n = sint (- 1 :: cint) mod sint n"
    using pn by (simp add: zmod_minus1)
  have "FeatureBuffer_index ?buf (- 1) = FeatureBuffer_index ?buf (n - 1)"
    "FeatureBuffer_index_const ?buf (- 1) = FeatureBuffer_index_const ?buf (n - 1)"
    using last shape by (simp_all only: index_well_formed [OF wf])
  with w r show ?thesis by blast
qed

theorem write_then_read_wraps_witness:
  "0 <s (3 :: cint) \<and> 0 <s (2 :: cint) \<and> sint (3 :: cint) * sint (2 :: cint) < 2 ^ 31
   \<and> snd (resize True FeatureBuffer_default 3 2) = None
   \<and> sint (- 1 :: cint) mod sint (3 :: cint) = sint (5 :: cint) mod sint (3 :: cint)
   \<and> 0 \<le>s (1 :: cint) \<and> (1 :: cint) <s 2
   \<and> (\<exists>buf'. write_at (fst (resize True FeatureBuffer_default 3 2)) (- 1) 1 7 = Inr buf'
          \<and> read_at buf' 5 1 = Inr 7)
   \<and> FeatureBuffer_index (fst (resize True FeatureBuffer_default 3 2)) (- 1)
       = FeatureBuffer_index (fst (resize True FeatureBuffer_default 3 2)) (3 - 1)"
proof -
  have r: "snd (resize True FeatureBuffer_default 3 2) = None" by code_simp
  have h: "0 <s (3 :: cint)" "0 <s (2 :: cint)" "sint (3 :: cint) * sint (2 :: cint) < 2 ^ 31"
    and h': "sint (- 1 :: cint) mod sint (3 :: cint) = sint (5 :: cint) mod sint (3 :: cint)"
    "0 \<le>s (1 :: cint)" "(1 :: cint) <s 2"
    by (simp_all add: word_sless_alt word_sle_eq)
  from h r h' write_then_read_wraps [OF h r h', of 7] show ?thesis by blast
qed




text \<open>
  In the buffer that \<open>resize 65536 65536\<close> leaves, position \<open>modulo(1, num_frames) * dim + 0\<close> is
  not an element of the storage, and the store of \<^verbatim>\<open>buffer[1][0] = v\<close> lands outside of it.
\<close>

theorem write_outside_storage_counterexample:
  "0 <s num_frames (fst (resize True FeatureBuffer_default 65536 65536))
   \<and> 0 <s dim (fst (resize True FeatureBuffer_default 65536 65536))
   \<and> 0 \<le>s (0 :: cint) \<and> 0 <s dim (fst (resize True FeatureBuffer_default 65536 65536))
   \<and> modulo 1 (num_frames (fst (resize True FeatureBuffer_default 65536 65536))) = Inr 1
   \<and> \<not> sint (1 :: cint) * sint (dim (fst (resize True FeatureBuffer_default 65536 65536))) + sint (0 :: cint)
         < int (length (m_buffer (fst (resize True FeatureBuffer_default 65536 65536))))
   \<and> write_at (fst (resize True FeatureBuffer_default 65536 65536)) 1 0 7 = Inl OutsideStorage"
  by code_simp

text \<open>
  C9, amended. For every buffer with \<open>num_frames > 0\<close> and \<open>dim > 0\<close> whose storage holds
  \<open>num_frames * dim \<le> 2^31 - 1\<close> values, every frame number and every index in \<open>[0, dim)\<close>: the
  write through \<^verbatim>\<open>buffer[frame][index]\<close> returns and replaces the storage element at position
  \<open>modulo(frame, num_frames) * dim + index\<close>; every other element of the storage, its length,
  \<open>dim\<close> and \<open>num_frames\<close> are as before.
\<close>

theorem write_changes_one_element:
  assumes "well_formed buf" "0 \<le>s index" "index <s dim buf"
  shows "\<exists>r buf'. modulo frame (num_frames buf) = Inr r
           \<and> 0 \<le> sint r * sint (dim buf) + sint index
           \<and> sint r * sint (dim buf) + sint index < int (length (m_buffer buf))
           \<and> write_at buf frame index v = Inr buf'
           \<and> m_buffer buf' = (m_buffer buf)[nat (sint r * sint (dim buf) + sint index) := v]
           \<and> (\<forall>k. k \<noteq> nat (sint r * sint (dim buf) + sint index) \<longrightarrow>
                 m_buffer buf' ! k = m_buffer buf ! k)
           \<and> length (m_buffer buf') = length (m_buffer buf)
           \<and> dim buf' = dim buf \<and> num_frames buf' = num_frames buf"
proof -
  from assms(1) have "0 <s num_frames buf" by (simp add: well_formed_def)
  then obtain r where r: "modulo frame (num_frames buf) = Inr r"
    "sint r = sint frame mod sint (num_frames buf)"
    using modulo_pos by blast
  let ?p = "sint r * sint (dim buf) + sint index"
  have p: "?p = slot_offset buf frame index" using r by (simp add: slot_offset_def)
  let ?buf' = "buf\<lparr>m_buffer := (m_buffer buf)[nat ?p := v]\<rparr>"
  have "write_at buf frame index v = Inr ?buf'"
    using write_at_well_formed [OF assms, of frame v] p by simp
  moreover have "0 \<le> ?p" "?p < int (length (m_buffer buf))"
    using slot_offset_in_storage(1) [OF assms, of frame] slot_offset_in_storage(2) [OF assms, of frame] p
    by simp_all
  moreover have "m_buffer ?buf' = (m_buffer buf)[nat ?p := v]"
    "\<forall>k. k \<noteq> nat ?p \<longrightarrow> m_buffer ?buf' ! k = m_buffer buf ! k"
    "length (m_buffer ?buf') = length (m_buffer buf)"
    "dim ?buf' = dim buf" "num_frames ?buf' = num_frames buf"
    by (simp_all add: dim_def num_frames_def)
  ultimately show ?thesis using r(1) by blast
qed

theorem write_changes_one_element_witness:
  "well_formed (fst (resize True FeatureBuffer_default 3 2)) \<and> 0 \<le>s (1 :: cint)
   \<and> 1 <s dim (fst (resize True FeatureBuffer_default 3 2))
   \<and> (\<exists>r buf'. modulo (- 2) (num_frames (fst (resize True FeatureBuffer_default 3 2))) = Inr r
         \<and> write_at (fst (resize True FeatureBuffer_default 3 2)) (- 2) 1 7 = Inr buf'
         \<and> m_buffer buf'
             = (m_buffer (fst (resize True FeatureBuffer_default 3 2)))
                 [nat (sint r * sint (dim (fst (resize True FeatureBuffer_default 3 2))) + sint (1 :: cint)) := 7]
         \<and> dim buf' = dim (fst (resize True FeatureBuffer_default 3 2))
         \<and> num_frames buf' = num_frames (fst (resize True FeatureBuffer_default 3 2)))"
proof -
  have h: "well_formed (fst (resize True FeatureBuffer_default 3 2))" "0 \<le>s (1 :: cint)"
    "1 <s dim (fst (resize True FeatureBuffer_default 3 2))"
    by code_simp+
  from h write_changes_one_element [OF h, of "- 2" 7] show ?thesis by blast
qed

end
